theory Spec2Isabelle
  imports Main "HOL-Library.Word"
begin

section \<open>The to-do list controller of \<^verbatim>\<open>ToDoList-App/App.js\<close>\<close>

text \<open>
  The component \<^verbatim>\<open>TodoList\<close> keeps six pieces of React state and talks to two
  collaborators: the REST service (through axios) and the key-value store
  (AsyncStorage). The model is a state-passing one: every handler of the component is a
  function from the state before the interaction to the state after it. The state holds
  the six hooks and, beside them, what the handlers do to the outside: the network calls
  issued so far with their outcomes, the alerts shown so far, and the content of the
  key-value store.

  A handler runs to its end before the next one starts: the continuation of every
  \<^verbatim>\<open>await\<close> and of the un-awaited \<^verbatim>\<open>fetchTasks()\<close> is part of the interaction that
  started it. The output of \<^verbatim>\<open>console.error\<close> is left out.
\<close>

subsection \<open>Strings\<close>

text \<open>
  A JavaScript string is a sequence of 16-bit code units. \<open>lit\<close> embeds the literals of
  the source (all of them ASCII).
\<close>

type_synonym js_string = "16 word list"

definition lit :: "string \<Rightarrow> js_string" where
  "lit s = map of_char s"

text \<open>
  \<^verbatim>\<open>String.prototype.trim\<close> strips, at both ends, the code units that ECMAScript calls
  WhiteSpace or LineTerminator: TAB, VT, FF, ZWNBSP, the space separators of Unicode
  (category Zs), LF, CR, LS and PS. All of them are in the basic plane, so each is one code
  unit.
\<close>

definition WhiteSpace :: "16 word \<Rightarrow> bool" where
  "WhiteSpace c \<longleftrightarrow>
     c = 0x0009 \<or> c = 0x000B \<or> c = 0x000C \<or> c = 0xFEFF \<or>
     c = 0x0020 \<or> c = 0x00A0 \<or> c = 0x1680 \<or> (0x2000 \<le> c \<and> c \<le> 0x200A) \<or>
     c = 0x202F \<or> c = 0x205F \<or> c = 0x3000"

definition LineTerminator :: "16 word \<Rightarrow> bool" where
  "LineTerminator c \<longleftrightarrow> c = 0x000A \<or> c = 0x000D \<or> c = 0x2028 \<or> c = 0x2029"

definition trimmed :: "16 word \<Rightarrow> bool" where
  "trimmed c \<longleftrightarrow> WhiteSpace c \<or> LineTerminator c"

definition trim :: "js_string \<Rightarrow> js_string" where
  "trim s = rev (dropWhile trimmed (rev (dropWhile trimmed s)))"

text \<open>\<^verbatim>\<open>Boolean.prototype.toString\<close>.\<close>

definition toString :: "bool \<Rightarrow> js_string" where
  "toString b = (if b then lit ''true'' else lit ''false'')"

subsection \<open>Tasks, requests and the state\<close>

text \<open>A task as the service returns it: \<^verbatim>\<open>{ id, title, completed }\<close>.\<close>

record Task =
  id_t :: nat
  title :: js_string
  completed :: bool

text \<open>
  The four calls of the component, with what each one sends:
  \<^verbatim>\<open>GET /fetch/\<close>, \<^verbatim>\<open>POST /create/ {title, completed}\<close>,
  \<^verbatim>\<open>PUT /{id}/update/ {title, completed}\<close> and \<^verbatim>\<open>DELETE /{id}/delete/\<close>.
\<close>

datatype request =
    GET_fetch
  | POST_create js_string bool
  | PUT_update nat js_string bool
  | DELETE_delete nat

text \<open>
  The promise of an axios call is rejected, or resolved with a response. The component
  reads \<^verbatim>\<open>response.data\<close> of the GET only, a list of tasks; the data of the other
  responses is never looked at.
\<close>

datatype response = Rejected | Resolved "Task list"

text \<open>
  The service is a parameter of every handler: a function that answers a request, given
  all the calls made so far. Nothing is assumed about it.
\<close>

type_synonym network = "(request \<times> response) list \<Rightarrow> request \<Rightarrow> response"

datatype error = TypeError

record state =
  tasks :: "Task list"
  task :: js_string
  editingIndex :: "nat option"
  editedTask :: js_string
  filter_s :: js_string
  darkMode :: bool
  calls :: "(request \<times> response) list"
  alerts :: "(js_string \<times> js_string) list"
  storage :: "js_string \<rightharpoonup> js_string"

text \<open>The initial values of the six \<^verbatim>\<open>useState\<close> hooks, over a given store.\<close>

definition initial :: "(js_string \<rightharpoonup> js_string) \<Rightarrow> state" where
  "initial store =
     \<lparr>tasks = [], task = [], editingIndex = None, editedTask = [],
      filter_s = lit ''all'', darkMode = False,
      calls = [], alerts = [], storage = store\<rparr>"

text \<open>One axios call: the service answers, and the call is recorded with its outcome.\<close>

definition axios :: "network \<Rightarrow> request \<Rightarrow> state \<Rightarrow> response \<times> state" where
  "axios net r st =
     (let a = net (calls st) r in (a, st\<lparr>calls := calls st @ [(r, a)]\<rparr>))"

definition Alert_alert :: "js_string \<Rightarrow> js_string \<Rightarrow> state \<Rightarrow> state" where
  "Alert_alert ttl msg st = st\<lparr>alerts := alerts st @ [(ttl, msg)]\<rparr>"

subsection \<open>The dark-mode preference\<close>

text \<open>
  \<^verbatim>\<open>loadMode\<close>, run once when the component starts, reads the key \<^verbatim>\<open>darkMode\<close>;
  \<^verbatim>\<open>getItem\<close> gives \<^verbatim>\<open>null\<close> for a key that was never written. The second effect of the
  component, \<open>saveMode\<close> here, writes the preference under that key; it runs when the
  preference has changed. The switch negates the preference, which is always a change. In
  which order the store serves the read and the write that the start of the component
  issues is the store's matter and is left out.
\<close>

definition loadMode :: "state \<Rightarrow> state" where
  "loadMode st =
     (case storage st (lit ''darkMode'') of
        None \<Rightarrow> st
      | Some savedMode \<Rightarrow> st\<lparr>darkMode := (savedMode = lit ''true'')\<rparr>)"

definition saveMode :: "state \<Rightarrow> state" where
  "saveMode st = st\<lparr>storage := (storage st)(lit ''darkMode'' \<mapsto> toString (darkMode st))\<rparr>"

definition onValueChange :: "state \<Rightarrow> state" where
  "onValueChange st = saveMode (st\<lparr>darkMode := \<not> darkMode st\<rparr>)"

subsection \<open>The handlers\<close>

definition fetchTasks :: "network \<Rightarrow> state \<Rightarrow> state" where
  "fetchTasks net st =
     (case axios net GET_fetch st of
        (Resolved d, st1) \<Rightarrow> st1\<lparr>tasks := d\<rparr>
      | (Rejected, st1) \<Rightarrow>
          Alert_alert (lit ''Error'') (lit ''Could not fetch tasks. Please try again later.'') st1)"

definition removeTask :: "network \<Rightarrow> nat \<Rightarrow> state \<Rightarrow> state" where
  "removeTask net i st =
     (case axios net (DELETE_delete i) st of
        (Resolved _, st1) \<Rightarrow> fetchTasks net st1
      | (Rejected, st1) \<Rightarrow>
          Alert_alert (lit ''Error'') (lit ''Could not delete task. Please try again later.'') st1)"

definition addTask :: "network \<Rightarrow> state \<Rightarrow> state" where
  "addTask net st =
     (if trim (task st) = [] then st
      else
        (case axios net (POST_create (task st) False) st of
           (Resolved _, st1) \<Rightarrow> fetchTasks net (st1\<lparr>task := []\<rparr>)
         | (Rejected, st1) \<Rightarrow>
             Alert_alert (lit ''Error'') (lit ''Could not add task. Please try again later.'') st1))"

text \<open>
  \<^verbatim>\<open>tasks.find(t => t.id === id)?.title || ''\<close>: the title of the first task with
  that id; the empty string when there is none, and also when that title is falsy, which
  for a string means empty.
\<close>

definition toggleComplete :: "network \<Rightarrow> nat \<Rightarrow> bool \<Rightarrow> state \<Rightarrow> state" where
  "toggleComplete net i c st =
     (let ttl = (case find (\<lambda>t. id_t t = i) (tasks st) of
                   None \<Rightarrow> []
                 | Some t \<Rightarrow> if title t = [] then [] else title t)
      in case axios net (PUT_update i ttl (\<not> c)) st of
           (Resolved _, st1) \<Rightarrow> fetchTasks net st1
         | (Rejected, st1) \<Rightarrow>
             Alert_alert (lit ''Error'')
               (lit ''Could not update task status. Please try again later.'') st1)"

text \<open>
  \<^verbatim>\<open>tasks[index]\<close> is \<^verbatim>\<open>undefined\<close> beyond the end of the array, and reading a
  property of \<^verbatim>\<open>undefined\<close> throws a TypeError. \<^verbatim>\<open>startEditing\<close> has no handler for
  it. In \<^verbatim>\<open>confirmEdit\<close> the read of \<^verbatim>\<open>updatedTask.id\<close> stands inside the
  \<^verbatim>\<open>try\<close> block, before the call: the error is caught there, no request is sent and
  the alert of the \<^verbatim>\<open>catch\<close> block is shown.
\<close>

definition startEditing :: "nat \<Rightarrow> state \<Rightarrow> error + state" where
  "startEditing index st =
     (if index < length (tasks st)
      then Inr (st\<lparr>editingIndex := Some index, editedTask := title (tasks st ! index)\<rparr>)
      else Inl TypeError)"

definition confirmEdit :: "network \<Rightarrow> nat \<Rightarrow> state \<Rightarrow> state" where
  "confirmEdit net index st =
     (if index < length (tasks st)
      then
        (let updatedTask = tasks st ! index in
         case axios net (PUT_update (id_t updatedTask) (editedTask st) (completed updatedTask)) st of
           (Resolved _, st1) \<Rightarrow> fetchTasks net (st1\<lparr>editingIndex := None\<rparr>)
         | (Rejected, st1) \<Rightarrow>
             Alert_alert (lit ''Error'') (lit ''Could not update task. Please try again later.'') st1)
      else
        Alert_alert (lit ''Error'') (lit ''Could not update task. Please try again later.'') st)"

text \<open>The list handed to the \<^verbatim>\<open>FlatList\<close>; row \<open>i\<close> of the screen shows its element \<open>i\<close>.\<close>

definition filteredTasks :: "state \<Rightarrow> Task list" where
  "filteredTasks st =
     filter (\<lambda>t. if filter_s st = lit ''completed'' then completed t
                 else if filter_s st = lit ''pending'' then \<not> completed t
                 else True)
       (tasks st)"

definition setFilter :: "js_string \<Rightarrow> state \<Rightarrow> state" where
  "setFilter type st = st\<lparr>filter_s := type\<rparr>"

text \<open>The requests an interaction has issued, in order: those recorded since \<open>st\<close>.\<close>

definition issued :: "state \<Rightarrow> state \<Rightarrow> request list" where
  "issued st st' = map fst (drop (length (calls st)) (calls st'))"

definition outcomes :: "state \<Rightarrow> state \<Rightarrow> response list" where
  "outcomes st st' = map snd (drop (length (calls st)) (calls st'))"

subsection \<open>Sample data\<close>

text \<open>
  Two tasks, one pending and one completed; a state holding the first of them, with a
  title typed into the input field and a text in the edit field; a state holding both
  under the filter \<^verbatim>\<open>completed\<close>.
\<close>

definition task_a :: Task where
  "task_a = \<lparr>id_t = 1, title = lit ''a'', completed = False\<rparr>"

definition task_b :: Task where
  "task_b = \<lparr>id_t = 2, title = lit ''b'', completed = True\<rparr>"

definition one_task :: state where
  "one_task = (initial Map.empty)\<lparr>tasks := [task_a], task := lit ''x'', editedTask := lit ''y''\<rparr>"

definition two_tasks :: state where
  "two_tasks =
     (initial Map.empty)\<lparr>tasks := [task_a, task_b], filter_s := lit ''completed'',
       editedTask := lit ''y''\<rparr>"

text \<open>
  Three services: one that accepts every call and answers it with the tasks \<open>ts\<close>, one
  that rejects every call, and one that rejects the fetch only.
\<close>

definition serving :: "Task list \<Rightarrow> network" where
  "serving ts h r = Resolved ts"

definition rejecting :: network where
  "rejecting h r = Rejected"

definition rejecting_fetch :: network where
  "rejecting_fetch h r = (if r = GET_fetch then Rejected else Resolved [])"

section \<open>Properties\<close>

subsection \<open>Auxiliary facts\<close>

lemma axios_eq:
  "axios net r st = (net (calls st) r, st\<lparr>calls := calls st @ [(r, net (calls st) r)]\<rparr>)"
  by (simp add: axios_def Let_def)

lemma fetchTasks_Resolved:
  "net (calls st) GET_fetch = Resolved d \<Longrightarrow>
   fetchTasks net st = st\<lparr>calls := calls st @ [(GET_fetch, Resolved d)], tasks := d\<rparr>"
  by (simp add: fetchTasks_def axios_eq)

lemma fetchTasks_Rejected:
  "net (calls st) GET_fetch = Rejected \<Longrightarrow>
   fetchTasks net st =
     st\<lparr>calls := calls st @ [(GET_fetch, Rejected)],
        alerts := alerts st @
          [(lit ''Error'', lit ''Could not fetch tasks. Please try again later.'')]\<rparr>"
  by (simp add: fetchTasks_def axios_eq Alert_alert_def)

lemma calls_fetchTasks:
  "calls (fetchTasks net st) = calls st @ [(GET_fetch, net (calls st) GET_fetch)]"
  by (cases "net (calls st) GET_fetch") (simp_all add: fetchTasks_Resolved fetchTasks_Rejected)

text \<open>A string trims to nothing exactly when every code unit of it is one that trim strips.\<close>

lemma all_dropWhile: "(\<forall>x\<in>set (dropWhile P s). P x) \<longleftrightarrow> (\<forall>x\<in>set s. P x)"
  by (induction s) auto

lemma trim_Nil_iff: "trim s = [] \<longleftrightarrow> (\<forall>c\<in>set s. trimmed c)"
  by (simp add: trim_def all_dropWhile)

lemma issued_append:
  "calls st' = calls st @ xs \<Longrightarrow> issued st st' = map fst xs"
  by (simp add: issued_def)

lemma outcomes_append:
  "calls st' = calls st @ xs \<Longrightarrow> outcomes st st' = map snd xs"
  by (simp add: outcomes_def)

text \<open>The calls of each handler that changes a task: the change, then the re-fetch if it went through.\<close>

lemma removeTask_calls:
  "calls (removeTask net i st) = calls st @
     (DELETE_delete i, net (calls st) (DELETE_delete i)) #
     (if net (calls st) (DELETE_delete i) = Rejected then []
      else [(GET_fetch,
             net (calls st @ [(DELETE_delete i, net (calls st) (DELETE_delete i))]) GET_fetch)])"
  by (cases "net (calls st) (DELETE_delete i)")
     (simp_all add: removeTask_def axios_eq Alert_alert_def calls_fetchTasks)

lemma addTask_calls:
  assumes "trim (task st) \<noteq> []" and "r = POST_create (task st) False"
  shows "calls (addTask net st) = calls st @
     (r, net (calls st) r) #
     (if net (calls st) r = Rejected then []
      else [(GET_fetch, net (calls st @ [(r, net (calls st) r)]) GET_fetch)])"
  using assms
  by (cases "net (calls st) r")
     (simp_all add: addTask_def axios_eq Alert_alert_def calls_fetchTasks)

lemma toggleComplete_calls:
  assumes "ttl = (case find (\<lambda>t. id_t t = i) (tasks st) of None \<Rightarrow> [] | Some t \<Rightarrow> title t)"
    and "r = PUT_update i ttl (\<not> c)"
  shows "calls (toggleComplete net i c st) = calls st @
     (r, net (calls st) r) #
     (if net (calls st) r = Rejected then []
      else [(GET_fetch, net (calls st @ [(r, net (calls st) r)]) GET_fetch)])"
proof -
  have "(case find (\<lambda>t. id_t t = i) (tasks st) of
           None \<Rightarrow> [] | Some t \<Rightarrow> if title t = [] then [] else title t) = ttl"
    using assms(1) by (simp split: option.splits)
  then show ?thesis
    using assms(2)
    by (cases "net (calls st) r")
       (simp_all add: toggleComplete_def axios_eq Alert_alert_def calls_fetchTasks)
qed

lemma confirmEdit_calls:
  assumes "index < length (tasks st)"
    and "r = PUT_update (id_t (tasks st ! index)) (editedTask st) (completed (tasks st ! index))"
  shows "calls (confirmEdit net index st) = calls st @
     (r, net (calls st) r) #
     (if net (calls st) r = Rejected then []
      else [(GET_fetch, net (calls st @ [(r, net (calls st) r)]) GET_fetch)])"
  using assms
  by (cases "net (calls st) r")
     (simp_all add: confirmEdit_def Let_def axios_eq Alert_alert_def calls_fetchTasks)

lemma confirmEdit_beyond:
  "\<not> index < length (tasks st) \<Longrightarrow>
   confirmEdit net index st =
     Alert_alert (lit ''Error'') (lit ''Could not update task. Please try again later.'') st"
  by (simp add: confirmEdit_def)

lemma find_first:
  "P t \<Longrightarrow> \<forall>u\<in>set xs. \<not> P u \<Longrightarrow> find P (xs @ t # ys) = Some t"
  by (induction xs) auto

text \<open>What a rejected call leaves behind, handler by handler.\<close>

lemma fetchTasks_after_Resolved:
  assumes "calls st1 = calls st @ [(r, Resolved x)]" "tasks st1 = tasks st" "alerts st1 = alerts st"
    and "Rejected \<in> set (outcomes st (fetchTasks net st1))"
  shows "tasks (fetchTasks net st1) = tasks st
   \<and> (\<exists>msg. alerts (fetchTasks net st1) = alerts st @ [(lit ''Error'', msg)])"
  using assms
  by (cases "net (calls st1) GET_fetch")
     (simp_all add: fetchTasks_Resolved fetchTasks_Rejected outcomes_append)

lemma fetchTasks_keeps:
  "Rejected \<in> set (outcomes st (fetchTasks net st)) \<Longrightarrow>
   tasks (fetchTasks net st) = tasks st
   \<and> (\<exists>msg. alerts (fetchTasks net st) = alerts st @ [(lit ''Error'', msg)])"
  by (cases "net (calls st) GET_fetch")
     (simp_all add: fetchTasks_Resolved fetchTasks_Rejected outcomes_append)

lemma removeTask_keeps:
  "Rejected \<in> set (outcomes st (removeTask net i st)) \<Longrightarrow>
   tasks (removeTask net i st) = tasks st
   \<and> (\<exists>msg. alerts (removeTask net i st) = alerts st @ [(lit ''Error'', msg)])"
  by (cases "net (calls st) (DELETE_delete i)")
     (simp_all add: removeTask_def axios_eq Alert_alert_def fetchTasks_after_Resolved)

lemma addTask_keeps:
  "Rejected \<in> set (outcomes st (addTask net st)) \<Longrightarrow>
   tasks (addTask net st) = tasks st
   \<and> (\<exists>msg. alerts (addTask net st) = alerts st @ [(lit ''Error'', msg)])"
  by (cases "net (calls st) (POST_create (task st) False)")
     (simp_all add: addTask_def axios_eq Alert_alert_def fetchTasks_after_Resolved outcomes_def
        split: if_splits)

lemma toggleComplete_keeps:
  "Rejected \<in> set (outcomes st (toggleComplete net i c st)) \<Longrightarrow>
   tasks (toggleComplete net i c st) = tasks st
   \<and> (\<exists>msg. alerts (toggleComplete net i c st) = alerts st @ [(lit ''Error'', msg)])"
  unfolding toggleComplete_def Let_def axios_eq
  by (auto simp: Alert_alert_def fetchTasks_after_Resolved split: response.splits)

lemma confirmEdit_keeps:
  "Rejected \<in> set (outcomes st (confirmEdit net index st)) \<Longrightarrow>
   tasks (confirmEdit net index st) = tasks st
   \<and> (\<exists>msg. alerts (confirmEdit net index st) = alerts st @ [(lit ''Error'', msg)])"
  unfolding confirmEdit_def Let_def axios_eq
  by (auto simp: Alert_alert_def fetchTasks_after_Resolved outcomes_def
        split: response.splits if_splits)

text \<open>The shape of the calls of a change, read through \<open>issued\<close> and \<open>outcomes\<close>.\<close>

lemma change_then_refetch:
  assumes "calls st' = calls st @ (r, a) # (if a = Rejected then [] else [(GET_fetch, b)])"
    and "r \<noteq> GET_fetch"
  shows "(\<forall>x as. outcomes st st' = Resolved x # as \<longrightarrow>
            (\<exists>r. r \<noteq> GET_fetch \<and> issued st st' = [r, GET_fetch]))
       \<and> (\<forall>as. outcomes st st' = Rejected # as \<longrightarrow> GET_fetch \<notin> set (issued st st'))"
  using assms by (cases a) (simp_all add: issued_def outcomes_def)

lemma no_call:
  assumes "calls st' = calls st"
  shows "(\<forall>x as. outcomes st st' = Resolved x # as \<longrightarrow>
            (\<exists>r. r \<noteq> GET_fetch \<and> issued st st' = [r, GET_fetch]))
       \<and> (\<forall>as. outcomes st st' = Rejected # as \<longrightarrow> GET_fetch \<notin> set (issued st st'))"
  using assms by (simp add: issued_def outcomes_def)



subsection \<open>The rendered list\<close>

text \<open>
  C1. When a fetch is answered with the tasks \<open>ts\<close>, the list rendered afterwards is
  \<open>ts\<close> itself under the filter \<^verbatim>\<open>all\<close>, the tasks of \<open>ts\<close> that are completed
  under the filter \<^verbatim>\<open>completed\<close>, and the tasks of \<open>ts\<close> that are not completed under
  the filter \<^verbatim>\<open>pending\<close>, each in the order of \<open>ts\<close>.
\<close>

theorem filteredTasks_after_fetch:
  assumes "net (calls st) GET_fetch = Resolved ts"
  shows "(filter_s st = lit ''all'' \<longrightarrow> filteredTasks (fetchTasks net st) = ts)
       \<and> (filter_s st = lit ''completed'' \<longrightarrow>
            filteredTasks (fetchTasks net st) = filter completed ts)
       \<and> (filter_s st = lit ''pending'' \<longrightarrow>
            filteredTasks (fetchTasks net st) = filter (\<lambda>t. \<not> completed t) ts)"
  using assms by (simp add: fetchTasks_Resolved filteredTasks_def lit_def)

text \<open>Two fetched tasks, one of them completed, under each of the three filters.\<close>

theorem filteredTasks_after_fetch_witness:
  "filteredTasks (fetchTasks (serving [task_a, task_b])
       (setFilter (lit ''all'') (initial Map.empty)))
     = [task_a, task_b]
   \<and> filteredTasks (fetchTasks (serving [task_a, task_b])
       (setFilter (lit ''completed'') (initial Map.empty)))
     = [task_b]
   \<and> filteredTasks (fetchTasks (serving [task_a, task_b])
       (setFilter (lit ''pending'') (initial Map.empty)))
     = [task_a]"
  using
    filteredTasks_after_fetch [of "serving [task_a, task_b]"
      "setFilter (lit ''all'') (initial Map.empty)" "[task_a, task_b]"]
    filteredTasks_after_fetch [of "serving [task_a, task_b]"
      "setFilter (lit ''completed'') (initial Map.empty)" "[task_a, task_b]"]
    filteredTasks_after_fetch [of "serving [task_a, task_b]"
      "setFilter (lit ''pending'') (initial Map.empty)" "[task_a, task_b]"]
  by (simp add: setFilter_def initial_def serving_def task_a_def task_b_def)

subsection \<open>Failed calls\<close>

text \<open>
  C2. Whichever of the five operations runs (fetching, creating, toggling, updating,
  removing): if a call it made was rejected, the local tasks after it are the local tasks
  before it, and one more alert, titled \<^verbatim>\<open>Error\<close>, has been shown.
\<close>

theorem rejected_call_keeps_tasks:
  assumes "st' \<in> {fetchTasks net st, addTask net st, toggleComplete net i c st,
                  confirmEdit net index st, removeTask net j st}"
    and "Rejected \<in> set (outcomes st st')"
  shows "tasks st' = tasks st \<and> (\<exists>msg. alerts st' = alerts st @ [(lit ''Error'', msg)])"
proof -
  from assms(1) consider
      "st' = fetchTasks net st" | "st' = addTask net st" | "st' = toggleComplete net i c st"
    | "st' = confirmEdit net index st" | "st' = removeTask net j st"
    by auto
  then show ?thesis
  proof cases
    case 1
    with assms(2) show ?thesis by (simp add: fetchTasks_keeps)
  next
    case 2
    with assms(2) show ?thesis by (simp add: addTask_keeps)
  next
    case 3
    with assms(2) show ?thesis by (simp add: toggleComplete_keeps)
  next
    case 4
    with assms(2) show ?thesis by (simp add: confirmEdit_keeps)
  next
    case 5
    with assms(2) show ?thesis by (simp add: removeTask_keeps)
  qed
qed

text \<open>
  A service that rejects every call, under each operation; and a service that accepts
  the deletion and rejects the re-fetch.
\<close>

theorem rejected_call_keeps_tasks_witness:
  "Rejected \<in> set (outcomes one_task (fetchTasks rejecting one_task))
   \<and> tasks (fetchTasks rejecting one_task) = [task_a]
   \<and> length (alerts (fetchTasks rejecting one_task)) = 1
   \<and> Rejected \<in> set (outcomes one_task (addTask rejecting one_task))
   \<and> tasks (addTask rejecting one_task) = [task_a]
   \<and> length (alerts (addTask rejecting one_task)) = 1
   \<and> Rejected \<in> set (outcomes one_task (toggleComplete rejecting 1 False one_task))
   \<and> tasks (toggleComplete rejecting 1 False one_task) = [task_a]
   \<and> length (alerts (toggleComplete rejecting 1 False one_task)) = 1
   \<and> Rejected \<in> set (outcomes one_task (confirmEdit rejecting 0 one_task))
   \<and> tasks (confirmEdit rejecting 0 one_task) = [task_a]
   \<and> length (alerts (confirmEdit rejecting 0 one_task)) = 1
   \<and> Rejected \<in> set (outcomes one_task (removeTask rejecting 1 one_task))
   \<and> tasks (removeTask rejecting 1 one_task) = [task_a]
   \<and> length (alerts (removeTask rejecting 1 one_task)) = 1
   \<and> outcomes one_task (removeTask rejecting_fetch 1 one_task)
       = [Resolved [], Rejected]
   \<and> tasks (removeTask rejecting_fetch 1 one_task) = [task_a]
   \<and> length (alerts (removeTask rejecting_fetch 1 one_task)) = 1"
proof -
  have t: "tasks one_task = [task_a]" and a: "alerts one_task = []"
    by (simp_all add: one_task_def initial_def)
  have 1: "Rejected \<in> set (outcomes one_task (fetchTasks rejecting one_task))"
    by (simp add: fetchTasks_def axios_eq Alert_alert_def outcomes_def rejecting_def)
  have 2: "Rejected \<in> set (outcomes one_task (addTask rejecting one_task))"
    by (simp add: addTask_def axios_eq Alert_alert_def outcomes_def one_task_def initial_def
          rejecting_def trim_def trimmed_def WhiteSpace_def LineTerminator_def lit_def)
  have 3: "Rejected \<in> set (outcomes one_task (toggleComplete rejecting 1 False one_task))"
    by (simp add: toggleComplete_def axios_eq Alert_alert_def outcomes_def rejecting_def)
  have 4: "Rejected \<in> set (outcomes one_task (confirmEdit rejecting 0 one_task))"
    by (simp add: confirmEdit_def axios_eq Alert_alert_def outcomes_def one_task_def initial_def
          rejecting_def)
  have 5: "Rejected \<in> set (outcomes one_task (removeTask rejecting 1 one_task))"
    by (simp add: removeTask_def axios_eq Alert_alert_def outcomes_def rejecting_def)
  have 6: "outcomes one_task (removeTask rejecting_fetch 1 one_task)
       = [Resolved [], Rejected]"
    by (simp add: removeTask_def fetchTasks_def axios_eq Alert_alert_def outcomes_def
          rejecting_fetch_def)
  note k = rejected_call_keeps_tasks [where st = one_task and i = 1 and c = False and index = 0 and j = 1]
  from 1 k [of "fetchTasks rejecting one_task" rejecting]
  have r1: "tasks (fetchTasks rejecting one_task) = [task_a]
      \<and> length (alerts (fetchTasks rejecting one_task)) = 1"
    unfolding t a by auto
  from 2 k [of "addTask rejecting one_task" rejecting]
  have r2: "tasks (addTask rejecting one_task) = [task_a]
      \<and> length (alerts (addTask rejecting one_task)) = 1"
    unfolding t a by auto
  from 3 k [of "toggleComplete rejecting 1 False one_task" rejecting]
  have r3: "tasks (toggleComplete rejecting 1 False one_task) = [task_a]
      \<and> length (alerts (toggleComplete rejecting 1 False one_task)) = 1"
    unfolding t a by auto
  from 4 k [of "confirmEdit rejecting 0 one_task" rejecting]
  have r4: "tasks (confirmEdit rejecting 0 one_task) = [task_a]
      \<and> length (alerts (confirmEdit rejecting 0 one_task)) = 1"
    unfolding t a by auto
  from 5 k [of "removeTask rejecting 1 one_task" rejecting]
  have r5: "tasks (removeTask rejecting 1 one_task) = [task_a]
      \<and> length (alerts (removeTask rejecting 1 one_task)) = 1"
    unfolding t a by auto
  from 6 k [of "removeTask rejecting_fetch 1 one_task"
      rejecting_fetch]
  have r6: "tasks (removeTask rejecting_fetch 1 one_task) = [task_a]
      \<and> length (alerts (removeTask rejecting_fetch 1 one_task)) = 1"
    unfolding t a by auto
  from 1 2 3 4 5 6 r1 r2 r3 r4 r5 r6 show ?thesis
    by blast
qed

subsection \<open>Toggling completion\<close>

text \<open>
  C3. \<^verbatim>\<open>toggleComplete(id, completed)\<close> sends, as its first call, an update request for
  that id whose completed field is the negation of the completed value it was given. Its
  title field is the title of the first task of the local list with that id; when no task
  of the local list has that id, it is the empty string. The re-fetch follows unless the
  update was rejected.
\<close>

theorem toggleComplete_request:
  "(tasks st = xs @ t # ys \<and> id_t t = i \<and> (\<forall>u\<in>set xs. id_t u \<noteq> i) \<longrightarrow>
      issued st (toggleComplete net i c st) =
        PUT_update i (title t) (\<not> c) #
        (if net (calls st) (PUT_update i (title t) (\<not> c)) = Rejected then [] else [GET_fetch]))
   \<and> ((\<forall>u\<in>set (tasks st). id_t u \<noteq> i) \<longrightarrow>
      issued st (toggleComplete net i c st) =
        PUT_update i [] (\<not> c) #
        (if net (calls st) (PUT_update i [] (\<not> c)) = Rejected then [] else [GET_fetch]))"
proof (intro conjI impI)
  assume "tasks st = xs @ t # ys \<and> id_t t = i \<and> (\<forall>u\<in>set xs. id_t u \<noteq> i)"
  then have "find (\<lambda>t. id_t t = i) (tasks st) = Some t"
    by (simp add: find_first)
  then show "issued st (toggleComplete net i c st) =
        PUT_update i (title t) (\<not> c) #
        (if net (calls st) (PUT_update i (title t) (\<not> c)) = Rejected then [] else [GET_fetch])"
    using toggleComplete_calls [of "title t" i st _ c net]
    by (simp add: issued_append)
next
  assume "\<forall>u\<in>set (tasks st). id_t u \<noteq> i"
  then have "find (\<lambda>t. id_t t = i) (tasks st) = None"
    by (simp add: find_None_iff)
  then show "issued st (toggleComplete net i c st) =
        PUT_update i [] (\<not> c) #
        (if net (calls st) (PUT_update i [] (\<not> c)) = Rejected then [] else [GET_fetch])"
    using toggleComplete_calls [of "[]" i st _ c net]
    by (simp add: issued_append)
qed

text \<open>
  Toggling the completed task 2 of a list of two, and toggling the id 7, which the list
  does not have; the service accepts every call.
\<close>

theorem toggleComplete_request_witness:
  "issued two_tasks (toggleComplete (serving []) 2 True two_tasks)
     = [PUT_update 2 (lit ''b'') False, GET_fetch]
   \<and> issued two_tasks (toggleComplete (serving []) 7 False two_tasks)
     = [PUT_update 7 [] True, GET_fetch]"
  using
    toggleComplete_request [of two_tasks "[task_a]" task_b "[]" 2 "serving []" True]
    toggleComplete_request [of two_tasks "[]" task_a "[task_b]" 7 "serving []" False]
  by (simp add: two_tasks_def initial_def task_a_def task_b_def serving_def)

subsection \<open>Creating a task\<close>

text \<open>
  C4. When every code unit of the typed title is white space (so also when the title is
  empty), \<^verbatim>\<open>addTask\<close> changes nothing: the state after it, with the calls made and the
  alerts shown, is the state before it.
\<close>

theorem addTask_blank:
  assumes "\<forall>c\<in>set (task st). trimmed c"
  shows "addTask net st = st"
  using assms by (simp add: addTask_def trim_Nil_iff)

text \<open>A title of a space, a tab, an ideographic space and a line feed; and the empty title.\<close>

theorem addTask_blank_witness:
  "trimmed 0x20 \<and> trimmed 0x09 \<and> trimmed 0x3000 \<and> trimmed 0x0A
   \<and> addTask (serving [])
         ((initial Map.empty)\<lparr>task := [0x20, 0x09, 0x3000, 0x0A]\<rparr>)
       = (initial Map.empty)\<lparr>task := [0x20, 0x09, 0x3000, 0x0A]\<rparr>
   \<and> addTask (serving []) (initial Map.empty) = initial Map.empty"
  using
    addTask_blank [of "(initial Map.empty)\<lparr>task := [0x20, 0x09, 0x3000, 0x0A]\<rparr>"
      "serving []"]
    addTask_blank [of "initial Map.empty" "serving []"]
  by (simp add: trimmed_def WhiteSpace_def LineTerminator_def initial_def)

text \<open>
  C5, as the code has it. When some code unit of the typed title is not white space,
  \<^verbatim>\<open>addTask\<close> sends one creation request, with that title and \<^verbatim>\<open>completed: false\<close>;
  the re-fetch follows it when the request is accepted, and nothing follows it when the
  request is rejected.
\<close>

theorem addTask_request:
  assumes "\<exists>c\<in>set (task st). \<not> trimmed c"
  shows "issued st (addTask net st) =
           POST_create (task st) False #
           (if net (calls st) (POST_create (task st) False) = Rejected then [] else [GET_fetch])"
proof -
  from assms have "trim (task st) \<noteq> []"
    by (simp add: trim_Nil_iff)
  from addTask_calls [OF this refl, of net] show ?thesis
    by (simp add: issued_append)
qed

theorem addTask_request_witness:
  "\<not> trimmed 0x61
   \<and> issued ((initial Map.empty)\<lparr>task := lit ''a''\<rparr>)
        (addTask (serving []) ((initial Map.empty)\<lparr>task := lit ''a''\<rparr>))
      = [POST_create (lit ''a'') False, GET_fetch]"
  using addTask_request [of "(initial Map.empty)\<lparr>task := lit ''a''\<rparr>" "serving []"]
  by (simp add: trimmed_def WhiteSpace_def LineTerminator_def lit_def serving_def)

text \<open>
  C5 as the specification words it has the re-fetch after every creation request. With
  the title \<^verbatim>\<open>a\<close> and a service that rejects the request, the creation request is the
  only call.
\<close>

theorem addTask_rejected_counterexample:
  "trim (lit ''a'') \<noteq> []
   \<and> issued ((initial Map.empty)\<lparr>task := lit ''a''\<rparr>)
        (addTask rejecting ((initial Map.empty)\<lparr>task := lit ''a''\<rparr>))
      = [POST_create (lit ''a'') False]"
  by (simp add: addTask_def trim_def trimmed_def WhiteSpace_def LineTerminator_def lit_def
        axios_eq Alert_alert_def initial_def issued_def rejecting_def)

text \<open>
  C10. When the typed title does not trim to the empty string, the creation request is
  the first call of \<^verbatim>\<open>addTask\<close> and carries the title as typed; no creation request
  of the interaction carries anything else, the trimmed title included.
\<close>

theorem addTask_title_verbatim:
  assumes "trim (task st) \<noteq> []"
  shows "issued st (addTask net st) \<noteq> []
       \<and> hd (issued st (addTask net st)) = POST_create (task st) False
       \<and> (\<forall>ttl c. POST_create ttl c \<in> set (issued st (addTask net st)) \<longrightarrow> ttl = task st)"
  using addTask_calls [OF assms refl, of net]
  by (simp add: issued_append)

text \<open>The title \<^verbatim>\<open>a\<close> between two spaces: it trims to \<^verbatim>\<open>a\<close>, and is sent with its spaces.\<close>

theorem addTask_title_verbatim_witness:
  "trim [0x20, 0x61, 0x20] = [0x61]
   \<and> hd (issued ((initial Map.empty)\<lparr>task := [0x20, 0x61, 0x20]\<rparr>)
        (addTask (serving []) ((initial Map.empty)\<lparr>task := [0x20, 0x61, 0x20]\<rparr>)))
      = POST_create [0x20, 0x61, 0x20] False
   \<and> POST_create [0x61] False \<notin>
       set (issued ((initial Map.empty)\<lparr>task := [0x20, 0x61, 0x20]\<rparr>)
        (addTask (serving []) ((initial Map.empty)\<lparr>task := [0x20, 0x61, 0x20]\<rparr>)))"
proof -
  have t: "trim [0x20, 0x61, 0x20] = [0x61]"
    by (simp add: trim_def trimmed_def WhiteSpace_def LineTerminator_def)
  from t addTask_title_verbatim [of "(initial Map.empty)\<lparr>task := [0x20, 0x61, 0x20]\<rparr>"
      "serving []"]
  show ?thesis
    by auto
qed

subsection \<open>Updating a title\<close>

text \<open>
  C6, as the code has it. \<^verbatim>\<open>confirmEdit(index)\<close>, for an index within the local list,
  sends one update request: for the id of the task at that index, with the edited text as
  title and with the completed flag that this task has in the local list. The re-fetch
  follows it when the request is accepted, and nothing follows it when the request is
  rejected.
\<close>

theorem confirmEdit_request:
  assumes "index < length (tasks st)"
  shows "issued st (confirmEdit net index st) =
           PUT_update (id_t (tasks st ! index)) (editedTask st) (completed (tasks st ! index)) #
           (if net (calls st)
                 (PUT_update (id_t (tasks st ! index)) (editedTask st)
                    (completed (tasks st ! index)))
               = Rejected
            then [] else [GET_fetch])"
  using confirmEdit_calls [OF assms refl, of net]
  by (simp add: issued_append)

theorem confirmEdit_request_witness:
  "0 < length (tasks one_task)
   \<and> issued one_task (confirmEdit (serving []) 0 one_task)
       = [PUT_update 1 (lit ''y'') False, GET_fetch]"
  using confirmEdit_request [of 0 one_task "serving []"]
  by (simp add: one_task_def initial_def task_a_def serving_def)

text \<open>
  C6 as the specification words it has the re-fetch after every update request. With a
  service that rejects the request, the update request is the only call.
\<close>

theorem confirmEdit_rejected_counterexample:
  "issued one_task (confirmEdit rejecting 0 one_task) = [PUT_update 1 (lit ''y'') False]"
  by (simp add: confirmEdit_def axios_eq Alert_alert_def issued_def one_task_def initial_def
        task_a_def rejecting_def)

subsection \<open>One re-fetch after a change that went through\<close>

text \<open>
  C7. For each of the four operations that change a task (creating, toggling, updating,
  removing): when the first call of the interaction, the change itself, is accepted, the
  interaction issues two calls, the change and then one fetch of the whole list; when the
  change is rejected, the interaction issues no fetch.
\<close>

theorem refetch_after_change:
  assumes "st' \<in> {addTask net st, toggleComplete net i c st,
                  confirmEdit net index st, removeTask net j st}"
  shows "(\<forall>x as. outcomes st st' = Resolved x # as \<longrightarrow>
            (\<exists>r. r \<noteq> GET_fetch \<and> issued st st' = [r, GET_fetch]))
       \<and> (\<forall>as. outcomes st st' = Rejected # as \<longrightarrow> GET_fetch \<notin> set (issued st st'))"
proof -
  from assms consider
      "st' = addTask net st" | "st' = toggleComplete net i c st"
    | "st' = confirmEdit net index st" | "st' = removeTask net j st"
    by auto
  then show ?thesis
  proof cases
    case 1
    show ?thesis
    proof (cases "trim (task st) = []")
      case True
      then have "calls st' = calls st"
        using 1 by (simp add: addTask_def)
      then show ?thesis by (rule no_call)
    next
      case False
      from addTask_calls [OF False refl, of net] show ?thesis
        unfolding 1 by (rule change_then_refetch) simp
    qed
  next
    case 2
    from toggleComplete_calls [OF refl refl, of net i c st] show ?thesis
      unfolding 2 by (rule change_then_refetch) simp
  next
    case 3
    show ?thesis
    proof (cases "index < length (tasks st)")
      case True
      from confirmEdit_calls [OF True refl, of net] show ?thesis
        unfolding 3 by (rule change_then_refetch) simp
    next
      case False
      then have "calls st' = calls st"
        using 3 by (simp add: confirmEdit_beyond Alert_alert_def)
      then show ?thesis by (rule no_call)
    qed
  next
    case 4
    from removeTask_calls [of net j st] show ?thesis
      unfolding 4 by (rule change_then_refetch) simp
  qed
qed

text \<open>Each of the four operations, under a service that accepts and under one that rejects.\<close>

theorem refetch_after_change_witness:
  "issued one_task (addTask (serving []) one_task) = [POST_create (lit ''x'') False, GET_fetch]
   \<and> issued one_task (toggleComplete (serving []) 1 False one_task)
       = [PUT_update 1 (lit ''a'') True, GET_fetch]
   \<and> issued one_task (confirmEdit (serving []) 0 one_task)
       = [PUT_update 1 (lit ''y'') False, GET_fetch]
   \<and> issued one_task (removeTask (serving []) 1 one_task) = [DELETE_delete 1, GET_fetch]
   \<and> outcomes one_task (removeTask (serving []) 1 one_task) = [Resolved [], Resolved []]
   \<and> outcomes one_task (removeTask rejecting 1 one_task) = [Rejected]
   \<and> GET_fetch \<notin> set (issued one_task (addTask rejecting one_task))
   \<and> GET_fetch \<notin> set (issued one_task (toggleComplete rejecting 1 False one_task))
   \<and> GET_fetch \<notin> set (issued one_task (confirmEdit rejecting 0 one_task))
   \<and> GET_fetch \<notin> set (issued one_task (removeTask rejecting 1 one_task))"
proof -
  note r = refetch_after_change [where st = one_task and i = 1 and c = False and index = 0 and j = 1]
  note defs = addTask_def toggleComplete_def confirmEdit_def removeTask_def fetchTasks_def
    axios_eq Alert_alert_def issued_def outcomes_def one_task_def initial_def task_a_def
    serving_def rejecting_def trim_def trimmed_def WhiteSpace_def LineTerminator_def lit_def
  have 1: "issued one_task (addTask (serving []) one_task)
      = [POST_create (lit ''x'') False, GET_fetch]"
    using r [of "addTask (serving []) one_task" "serving []"] by (simp add: defs)
  have 2: "issued one_task (toggleComplete (serving []) 1 False one_task)
       = [PUT_update 1 (lit ''a'') True, GET_fetch]"
    using r [of "toggleComplete (serving []) 1 False one_task" "serving []"] by (simp add: defs)
  have 3: "issued one_task (confirmEdit (serving []) 0 one_task)
       = [PUT_update 1 (lit ''y'') False, GET_fetch]"
    using r [of "confirmEdit (serving []) 0 one_task" "serving []"] by (simp add: defs)
  have 4: "issued one_task (removeTask (serving []) 1 one_task) = [DELETE_delete 1, GET_fetch]
     \<and> outcomes one_task (removeTask (serving []) 1 one_task) = [Resolved [], Resolved []]"
    using r [of "removeTask (serving []) 1 one_task" "serving []"] by (simp add: defs)
  have o: "outcomes one_task (addTask rejecting one_task) = [Rejected]"
    "outcomes one_task (toggleComplete rejecting 1 False one_task) = [Rejected]"
    "outcomes one_task (confirmEdit rejecting 0 one_task) = [Rejected]"
    "outcomes one_task (removeTask rejecting 1 one_task) = [Rejected]"
    by (simp_all add: defs)
  have 5: "GET_fetch \<notin> set (issued one_task (addTask rejecting one_task))"
    using r [of "addTask rejecting one_task" rejecting] o(1) by simp
  have 6: "GET_fetch \<notin> set (issued one_task (toggleComplete rejecting 1 False one_task))"
    using r [of "toggleComplete rejecting 1 False one_task" rejecting] o(2) by simp
  have 7: "GET_fetch \<notin> set (issued one_task (confirmEdit rejecting 0 one_task))"
    using r [of "confirmEdit rejecting 0 one_task" rejecting] o(3) by simp
  have 8: "GET_fetch \<notin> set (issued one_task (removeTask rejecting 1 one_task))"
    using r [of "removeTask rejecting 1 one_task" rejecting] o(4) by simp
  from 1 2 3 4 5 6 7 8 o(4) show ?thesis
    by blast
qed

subsection \<open>The dark-mode preference survives a restart\<close>

text \<open>
  C8. Whatever the preference \<open>b\<close>, once the component has written it to the store, a
  fresh start of the component over that store (the initial state, then \<^verbatim>\<open>loadMode\<close>)
  has the preference \<open>b\<close> again; what was written under the key is the string
  \<^verbatim>\<open>true\<close> or \<^verbatim>\<open>false\<close>; and after the switch has been flipped, a fresh start has the
  flipped preference.
\<close>

theorem darkMode_roundtrip:
  "darkMode (loadMode (initial (storage (saveMode (st\<lparr>darkMode := b\<rparr>))))) = b
   \<and> storage (saveMode (st\<lparr>darkMode := b\<rparr>)) (lit ''darkMode'')
       = Some (lit (if b then ''true'' else ''false''))
   \<and> darkMode (loadMode (initial (storage (onValueChange st)))) = (\<not> darkMode st)"
  by (cases b; cases "darkMode st")
     (simp_all add: loadMode_def initial_def onValueChange_def saveMode_def toString_def lit_def)

subsection \<open>Editing a row of a filtered list\<close>

text \<open>
  C9, as the code has it. The edit handlers take the row index of the rendered list and
  read the local, unfiltered list at it. The rendered list is never longer than the local
  one, so at a row index of the rendered list a task is always there: \<^verbatim>\<open>startEditing\<close>
  returns, with that task's title as the text to edit, and \<^verbatim>\<open>confirmEdit\<close> sends its
  update request, for that task's id. For some list and a filter other than \<^verbatim>\<open>all\<close>,
  that task is not the task shown in the row: its id and its title are others.
\<close>

theorem edit_reads_unfiltered_list:
  "(i < length (filteredTasks st) \<longrightarrow>
        i < length (tasks st)
      \<and> startEditing i st
          = Inr (st\<lparr>editingIndex := Some i, editedTask := title (tasks st ! i)\<rparr>)
      \<and> issued st (confirmEdit net i st) \<noteq> []
      \<and> hd (issued st (confirmEdit net i st))
          = PUT_update (id_t (tasks st ! i)) (editedTask st) (completed (tasks st ! i)))
   \<and> (\<exists>s k. filter_s s \<noteq> lit ''all'' \<and> k < length (filteredTasks s)
         \<and> id_t (tasks s ! k) \<noteq> id_t (filteredTasks s ! k)
         \<and> title (tasks s ! k) \<noteq> title (filteredTasks s ! k))"
proof (intro conjI impI)
  assume "i < length (filteredTasks st)"
  moreover have "length (filteredTasks st) \<le> length (tasks st)"
    by (simp add: filteredTasks_def)
  ultimately show len: "i < length (tasks st)"
    by simp
  then show "startEditing i st
      = Inr (st\<lparr>editingIndex := Some i, editedTask := title (tasks st ! i)\<rparr>)"
    by (simp add: startEditing_def)
  from confirmEdit_calls [OF len refl, of net]
  show "issued st (confirmEdit net i st) \<noteq> []"
    and "hd (issued st (confirmEdit net i st))
          = PUT_update (id_t (tasks st ! i)) (editedTask st) (completed (tasks st ! i))"
    by (simp_all add: issued_append)
next
  have "filter_s two_tasks \<noteq> lit ''all'' \<and> 0 < length (filteredTasks two_tasks)
         \<and> id_t (tasks two_tasks ! 0) \<noteq> id_t (filteredTasks two_tasks ! 0)
         \<and> title (tasks two_tasks ! 0) \<noteq> title (filteredTasks two_tasks ! 0)"
    by (simp add: two_tasks_def initial_def filteredTasks_def task_a_def task_b_def lit_def)
  then show "\<exists>s k. filter_s s \<noteq> lit ''all'' \<and> k < length (filteredTasks s)
         \<and> id_t (tasks s ! k) \<noteq> id_t (filteredTasks s ! k)
         \<and> title (tasks s ! k) \<noteq> title (filteredTasks s ! k)"
    by blast
qed

text \<open>
  Two tasks under the filter \<^verbatim>\<open>completed\<close>: the only row shows the second task, and
  editing that row reads the title of the first and updates the first.
\<close>

theorem edit_reads_unfiltered_list_witness:
  "filteredTasks two_tasks = [task_b]
   \<and> startEditing 0 two_tasks
       = Inr (two_tasks\<lparr>editingIndex := Some 0, editedTask := title task_a\<rparr>)
   \<and> hd (issued two_tasks (confirmEdit (serving []) 0 two_tasks))
       = PUT_update (id_t task_a) (lit ''y'') (completed task_a)"
proof -
  have f: "filteredTasks two_tasks = [task_b]"
    by (simp add: two_tasks_def initial_def filteredTasks_def task_a_def task_b_def lit_def)
  have t: "tasks two_tasks ! 0 = task_a" and e: "editedTask two_tasks = lit ''y''"
    by (simp_all add: two_tasks_def initial_def)
  from f edit_reads_unfiltered_list [of 0 two_tasks "serving []"] show ?thesis
    unfolding t e by simp
qed

text \<open>
  C9 as the specification words it has the task looked up absent for some list, filter
  and row. For no state and no row index of its rendered list does \<^verbatim>\<open>startEditing\<close>
  throw, or \<^verbatim>\<open>confirmEdit\<close> end without a request.
\<close>

theorem edit_row_absent_counterexample:
  "\<not> (\<exists>s k. k < length (filteredTasks s)
         \<and> (startEditing k s = Inl TypeError \<or> (\<exists>net. issued s (confirmEdit net k s) = [])))"
proof
  assume "\<exists>s k. k < length (filteredTasks s)
         \<and> (startEditing k s = Inl TypeError \<or> (\<exists>net. issued s (confirmEdit net k s) = []))"
  then obtain s k where k: "k < length (filteredTasks s)"
    and bad: "startEditing k s = Inl TypeError \<or> (\<exists>net. issued s (confirmEdit net k s) = [])"
    by blast
  have "length (filteredTasks s) \<le> length (tasks s)"
    by (simp add: filteredTasks_def)
  with k have len: "k < length (tasks s)"
    by simp
  then have "startEditing k s \<noteq> Inl TypeError"
    by (simp add: startEditing_def)
  moreover have "issued s (confirmEdit net k s) \<noteq> []" for net
    using confirmEdit_calls [OF len refl, of net] by (simp add: issued_append)
  ultimately show False
    using bad by blast
qed

end
